theory Spec2Isabelle
  imports Main
begin

section \<open>Go library values used by the handlers\<close>

text \<open>
  Go's \<^verbatim>\<open>error\<close> is an interface with one method, \<^verbatim>\<open>Error() string\<close>. Two kinds of
  error reach the handlers: the \<^verbatim>\<open>*strconv.NumError\<close> that \<^verbatim>\<open>strconv.Atoi\<close> builds, and
  errors made by net/http, encoding/json, the GraphQL client and the badge package, of
  which only the message is known.
\<close>

datatype num_err = ErrSyntax | ErrRange

datatype error =
    NumError string string num_err
  | ErrorString string

fun num_err_Error :: "num_err \<Rightarrow> string" where
  "num_err_Error ErrSyntax = ''invalid syntax''"
| "num_err_Error ErrRange = ''value out of range''"

text \<open>
  \<^verbatim>\<open>err.Error()\<close>. A NumError prints as
  \<^verbatim>\<open>"strconv." + Func + ": parsing " + Quote(Num) + ": " + Err.Error()\<close>; \<^verbatim>\<open>strconv.Quote\<close>
  is library code and is taken as the parameter \<open>quote\<close>.
\<close>

fun Error_msg :: "(string \<Rightarrow> string) \<Rightarrow> error \<Rightarrow> string" where
  "Error_msg quote (NumError fn num k) =
     ''strconv.'' @ fn @ '': parsing '' @ quote num @ '': '' @ num_err_Error k"
| "Error_msg quote (ErrorString m) = m"

subsection \<open>strconv.Itoa and strconv.Atoi\<close>

fun decimal :: "nat \<Rightarrow> string" where
  "decimal n =
     (if n < 10 then [''0123456789'' ! n]
      else decimal (n div 10) @ [''0123456789'' ! (n mod 10)])"

declare decimal.simps [simp del]

definition Itoa :: "int \<Rightarrow> string" where
  "Itoa i = (if i < 0 then CHR ''-'' # decimal (nat (- i)) else decimal (nat i))"

definition is_digit :: "char \<Rightarrow> bool" where
  "is_digit c = (c \<in> set ''0123456789'')"

definition digit_val :: "char \<Rightarrow> int" where
  "digit_val c = of_char c - 48"

text \<open>
  The loop of \<^verbatim>\<open>strconv.ParseUint(s, 10, 64)\<close>: a byte that is no decimal digit is a
  syntax error, and the value leaving 64 bits is a range error, whichever comes first.
  The \<^verbatim>\<open>uint64\<close> accumulator is an integer here; the two range checks are the ones that
  keep it below \<open>2 ^ 64\<close>.
\<close>

fun ParseUint_loop :: "int \<Rightarrow> string \<Rightarrow> num_err + int" where
  "ParseUint_loop n [] = Inr n"
| "ParseUint_loop n (c # cs) =
     (if \<not> is_digit c then Inl ErrSyntax
      else if n \<ge> 1844674407370955162 then Inl ErrRange
      else if n * 10 + digit_val c > 18446744073709551615 then Inl ErrRange
      else ParseUint_loop (n * 10 + digit_val c) cs)"

definition ParseUint :: "string \<Rightarrow> num_err + int" where
  "ParseUint s = (if s = [] then Inl ErrSyntax else ParseUint_loop 0 s)"

text \<open>
  \<^verbatim>\<open>strconv.Atoi\<close> on a platform whose \<^verbatim>\<open>int\<close> has 64 bits: an optional sign, then
  decimal digits, within \<open>- 2 ^ 63 .. 2 ^ 63 - 1\<close>. (Its fast path for short inputs
  computes the same results as \<^verbatim>\<open>ParseInt(s, 10, 0)\<close>, which is what is written here.)
\<close>

definition Atoi :: "string \<Rightarrow> error + int" where
  "Atoi s =
     (case s of
        [] \<Rightarrow> Inl (NumError ''Atoi'' s ErrSyntax)
      | c # cs \<Rightarrow>
          (let neg = (c = CHR ''-'');
               digits = (if c = CHR ''+'' \<or> c = CHR ''-'' then cs else s)
           in case ParseUint digits of
                Inl k \<Rightarrow> Inl (NumError ''Atoi'' s k)
              | Inr un \<Rightarrow>
                  if \<not> neg \<and> un \<ge> 9223372036854775808 then Inl (NumError ''Atoi'' s ErrRange)
                  else if neg \<and> un > 9223372036854775808 then Inl (NumError ''Atoi'' s ErrRange)
                  else Inr (if neg then - un else un)))"

subsection \<open>Requests and responses\<close>

text \<open>
  \<^verbatim>\<open>r.URL.Query()\<close> is the list of decoded key/value pairs of the query string, in the
  order they appear; \<^verbatim>\<open>Get\<close> gives the first value of a key, and the empty string when
  the key is absent. \<^verbatim>\<open>Header.Get\<close> reads a response header the same way.
\<close>

type_synonym url_values = "(string \<times> string) list"

definition Get :: "url_values \<Rightarrow> string \<Rightarrow> string" where
  "Get vs key = (case map_of vs key of None \<Rightarrow> [] | Some v \<Rightarrow> v)"

text \<open>The route variables of \<^verbatim>\<open>/{provider}/{owner}/{repo}/{requestType}\<close> and the query.\<close>

record request =
  owner :: string
  repo :: string
  requestType :: string
  query :: "url_values"

text \<open>What the handler has written to its \<^verbatim>\<open>http.ResponseWriter\<close> when it returns.\<close>

record response =
  code :: nat
  header :: "url_values"
  body :: string

text \<open>
  \<^verbatim>\<open>http.Error(w, msg, code)\<close>: a plain-text content type, the status code, and the
  message followed by a newline.
\<close>

definition http_Error :: "string \<Rightarrow> nat \<Rightarrow> response" where
  "http_Error msg c =
     \<lparr>code = c,
      header = [(''Content-Type'', ''text/plain; charset=utf-8''),
                (''X-Content-Type-Options'', ''nosniff'')],
      body = msg @ [CHR 0x0A]\<rparr>"

subsection \<open>The badge package\<close>

record Options =
  Color :: string
  Icon :: string
  Style :: string

text \<open>
  What the handlers use from outside this source: \<^verbatim>\<open>badge.Create\<close> (package pkg/badge),
  which gives the SVG markup or an error, and \<^verbatim>\<open>strconv.Quote\<close>.
\<close>

record externals =
  Create :: "string \<Rightarrow> string \<Rightarrow> Options \<Rightarrow> error + string"
  Quote :: "string \<Rightarrow> string"

section \<open>The upstream services\<close>

datatype IssueState = IssueStateOpen | IssueStateClosed

datatype PullRequestState = PullRequestStateOpen | PullRequestStateClosed | PullRequestStateMerged

text \<open>The four GraphQL queries of github.go, each with its variables.\<close>

datatype graphql =
    ForksQuery string string
  | IssuesQuery string string "IssueState list"
  | PullRequestsQuery string string "PullRequestState list"
  | StargazersQuery string string

text \<open>
  The fields of \<^verbatim>\<open>GitlabProjectsResponse\<close> that the service reads; the other fields are
  decoded and never used.
\<close>

record GitlabProjectsResponse =
  StarCount :: int
  ForksCount :: int

text \<open>
  A GitLab HTTP response: its headers, and what decoding its body as JSON into a
  \<^verbatim>\<open>GitlabProjectsResponse\<close> gives.
\<close>

record http_response =
  Header :: "url_values"
  Decoded :: "error + GitlabProjectsResponse"

text \<open>
  The world outside the process, as the fetchers see it: whether \<^verbatim>\<open>http.NewRequest\<close>
  accepts a URL, what \<^verbatim>\<open>client.Do\<close> gives for it, and for a GraphQL query the
  \<^verbatim>\<open>TotalCount\<close> that \<^verbatim>\<open>client.Query\<close> leaves in the query struct together with its error.
\<close>

record upstream =
  NewRequest :: "string \<Rightarrow> error option"
  Do :: "string \<Rightarrow> error + http_response"
  Query :: "graphql \<Rightarrow> int \<times> error option"

text \<open>What a call does besides returning, in order.\<close>

datatype effect =
    HttpGet string
  | GraphQL graphql
  | BadgeCreate string string Options
  | LogFatal string error
  | LogPrintln error
  | FmtPrintln error

text \<open>
  \<^verbatim>\<open>log.Fatal\<close> prints and calls \<^verbatim>\<open>os.Exit(1)\<close>: the call does not return and the
  process is gone.
\<close>

datatype 'a go = Return 'a | Exit

section \<open>github.go\<close>

definition github_getForkCount ::
  "upstream \<Rightarrow> string \<Rightarrow> string \<Rightarrow> (int \<times> error option) go \<times> effect list" where
  "github_getForkCount up ownr rep =
     (let q = ForksQuery ownr rep
      in (Return (Query up q), [GraphQL q]))"

definition github_getIssueCount ::
  "upstream \<Rightarrow> string \<Rightarrow> string \<Rightarrow> string \<Rightarrow> (int \<times> error option) go \<times> effect list" where
  "github_getIssueCount up ownr rep issueState =
     (let issueStates =
            (if issueState = ''open'' then [IssueStateOpen]
             else if issueState = ''closed'' then [IssueStateClosed]
             else [IssueStateOpen, IssueStateClosed]);
          q = IssuesQuery ownr rep issueStates
      in (Return (Query up q), [GraphQL q]))"

definition github_getPullRequestCount ::
  "upstream \<Rightarrow> string \<Rightarrow> string \<Rightarrow> string \<Rightarrow> (int \<times> error option) go \<times> effect list" where
  "github_getPullRequestCount up ownr rep pullRequestState =
     (let pullRequestStates =
            (if pullRequestState = ''open'' then [PullRequestStateOpen]
             else if pullRequestState = ''closed'' then [PullRequestStateClosed]
             else if pullRequestState = ''merged'' then [PullRequestStateMerged]
             else [PullRequestStateOpen, PullRequestStateClosed, PullRequestStateMerged]);
          q = PullRequestsQuery ownr rep pullRequestStates
      in (Return (Query up q), [GraphQL q]))"

definition github_getStargazerCount ::
  "upstream \<Rightarrow> string \<Rightarrow> string \<Rightarrow> (int \<times> error option) go \<times> effect list" where
  "github_getStargazerCount up ownr rep =
     (let q = StargazersQuery ownr rep
      in (Return (Query up q), [GraphQL q]))"

text \<open>
  The local variables of \<^verbatim>\<open>Handler\<close>:
  \<^verbatim>\<open>var color, status, subject string; var value int; var err error\<close>, with their zero
  values.
\<close>

record vars =
  color :: string
  status :: string
  subject :: string
  val :: int
  err :: "error option"

definition zero_vars :: vars where
  "zero_vars = \<lparr>color = [], status = [], subject = [], val = 0, err = None\<rparr>"

text \<open>Assigning \<^verbatim>\<open>value, err = service.getXxx(...)\<close>; a fetcher that exits takes the handler with it.\<close>

fun assign ::
  "vars \<Rightarrow> (int \<times> error option) go \<times> effect list \<Rightarrow> vars go \<times> effect list" where
  "assign v (Return (n, e), effs) = (Return (v\<lparr>val := n, err := e\<rparr>), effs)"
| "assign v (Exit, effs) = (Exit, effs)"

text \<open>Lines 142 to 177, "Fetch data": the switch on \<^verbatim>\<open>requestType\<close>.\<close>

definition github_fetch_data :: "upstream \<Rightarrow> request \<Rightarrow> vars go \<times> effect list" where
  "github_fetch_data up r =
     (if requestType r = ''forks'' then
        assign (zero_vars\<lparr>subject := ''forks''\<rparr>) (github_getForkCount up (owner r) (repo r))
      else if requestType r = ''issues'' then
        (let state = Get (query r) ''state'';
             sbj = (if state = ''open'' then ''open issues''
                    else if state = ''closed'' then ''closed issues''
                    else ''issues'')
         in assign (zero_vars\<lparr>subject := sbj\<rparr>) (github_getIssueCount up (owner r) (repo r) state))
      else if requestType r = ''pull-requests'' then
        (let state = Get (query r) ''state'';
             sbj = (if state = ''open'' then ''open PRs''
                    else if state = ''closed'' then ''closed PRs''
                    else if state = ''merged'' then ''merged PRs''
                    else ''PRs'')
         in assign (zero_vars\<lparr>subject := sbj\<rparr>)
              (github_getPullRequestCount up (owner r) (repo r) state))
      else if requestType r = ''stars'' then
        assign (zero_vars\<lparr>subject := ''stars''\<rparr>) (github_getStargazerCount up (owner r) (repo r))
      else (Return zero_vars, []))"

text \<open>
  Lines 179 to 200, "Compute status" and "Overwrite any badge texts": the arguments of
  \<^verbatim>\<open>badge.Create\<close>.
\<close>

definition github_resolve ::
  "(string \<Rightarrow> string) \<Rightarrow> vars \<Rightarrow> url_values \<Rightarrow> string \<times> string \<times> Options" where
  "github_resolve quote v q =
     (let v1 = (case err v of
                  Some e \<Rightarrow> v\<lparr>status := Error_msg quote e\<rparr>
                | None \<Rightarrow> v\<lparr>status := Itoa (val v)\<rparr>);
          v2 = (if Get q ''color'' \<noteq> [] then v1\<lparr>color := Get q ''color''\<rparr> else v1);
          v3 = (if Get q ''status'' \<noteq> [] then v2\<lparr>status := Get q ''status''\<rparr> else v2);
          v4 = (if Get q ''subject'' \<noteq> [] then v3\<lparr>subject := Get q ''subject''\<rparr> else v3);
          icon = Get q ''icon'';
          style = Get q ''style''
      in (subject v4, status v4, \<lparr>Color = color v4, Icon = icon, Style = style\<rparr>))"

text \<open>Lines 199 to 211, "Generate badge": the call of the renderer and the response.\<close>

definition github_generate ::
  "externals \<Rightarrow> string \<times> string \<times> Options \<Rightarrow> response \<times> effect list" where
  "github_generate ext p =
     (case p of (sbj, st, createOptions) \<Rightarrow>
        (case Create ext sbj st createOptions of
           Inl e \<Rightarrow>
             (http_Error ''Internal Server Error'' 500,
              [BadgeCreate sbj st createOptions, FmtPrintln e])
         | Inr generatedBadge \<Rightarrow>
             (\<lparr>code = 200,
               header = [(''Cache-Control'', ''public, max-age=3600, s-maxage=3600''),
                         (''Content-Type'', ''image/svg+xml;utf-8'')],
               body = generatedBadge\<rparr>,
              [BadgeCreate sbj st createOptions])))"

definition github_Handler ::
  "externals \<Rightarrow> upstream \<Rightarrow> request \<Rightarrow> response go \<times> effect list" where
  "github_Handler ext up r =
     (case github_fetch_data up r of
        (Exit, effs) \<Rightarrow> (Exit, effs)
      | (Return v, effs) \<Rightarrow>
          (case github_generate ext (github_resolve (Quote ext) v (query r)) of
             (resp, effs') \<Rightarrow> (Return resp, effs @ effs')))"

section \<open>gitlab.go\<close>

definition gitlab_getForkCount ::
  "upstream \<Rightarrow> string \<Rightarrow> string \<Rightarrow> (int \<times> error option) go \<times> effect list" where
  "gitlab_getForkCount up ownr rep =
     (let url = ''https://gitlab.com/api/v4/projects/'' @ ownr @ ''%2F'' @ rep
      in case NewRequest up url of
           Some e \<Rightarrow> (Exit, [LogFatal ''NewRequest: '' e])
         | None \<Rightarrow>
             (case Do up url of
                Inl e \<Rightarrow> (Exit, [HttpGet url, LogFatal ''Do: '' e])
              | Inr resp \<Rightarrow>
                  (case Decoded resp of
                     Inl e \<Rightarrow> (Return (- 1, Some e), [HttpGet url, LogPrintln e])
                   | Inr project \<Rightarrow> (Return (ForksCount project, None), [HttpGet url]))))"

text \<open>Lines 79 to 85 and 111 to 121: the URL of the listing, with the state filter.\<close>

definition gitlab_issues_url :: "string \<Rightarrow> string \<Rightarrow> string \<Rightarrow> string" where
  "gitlab_issues_url ownr rep issueState =
     (let url = ''https://gitlab.com/api/v4/projects/'' @ ownr @ ''%2F'' @ rep @ ''/issues''
      in if issueState = ''opened'' then url @ ''?state=opened''
         else if issueState = ''closed'' then url @ ''?state=closed''
         else url)"

definition gitlab_merge_requests_url :: "string \<Rightarrow> string \<Rightarrow> string \<Rightarrow> string" where
  "gitlab_merge_requests_url ownr rep pullRequestState =
     (let url = ''https://gitlab.com/api/v4/projects/'' @ ownr @ ''%2F'' @ rep @ ''/merge_requests''
      in if pullRequestState = ''opened'' then url @ ''?state=opened''
         else if pullRequestState = ''closed'' then url @ ''?state=closed''
         else if pullRequestState = ''locked'' then url @ ''?state=locked''
         else if pullRequestState = ''merged'' then url @ ''?state=merged''
         else url)"

definition gitlab_getIssueCount ::
  "upstream \<Rightarrow> string \<Rightarrow> string \<Rightarrow> string \<Rightarrow> (int \<times> error option) go \<times> effect list" where
  "gitlab_getIssueCount up ownr rep issueState =
     (let url = gitlab_issues_url ownr rep issueState
      in case NewRequest up url of
           Some e \<Rightarrow> (Exit, [LogFatal ''NewRequest: '' e])
         | None \<Rightarrow>
             (case Do up url of
                Inl e \<Rightarrow> (Exit, [HttpGet url, LogFatal ''Do: '' e])
              | Inr resp \<Rightarrow>
                  (let xTotal = Get (Header resp) ''X-Total''
                   in case Atoi xTotal of
                        Inl e \<Rightarrow> (Return (- 1, Some e), [HttpGet url, LogPrintln e])
                      | Inr issueCount \<Rightarrow> (Return (issueCount, None), [HttpGet url]))))"

definition gitlab_getPullRequestCount ::
  "upstream \<Rightarrow> string \<Rightarrow> string \<Rightarrow> string \<Rightarrow> (int \<times> error option) go \<times> effect list" where
  "gitlab_getPullRequestCount up ownr rep pullRequestState =
     (let url = gitlab_merge_requests_url ownr rep pullRequestState
      in case NewRequest up url of
           Some e \<Rightarrow> (Exit, [LogFatal ''NewRequest: '' e])
         | None \<Rightarrow>
             (case Do up url of
                Inl e \<Rightarrow> (Exit, [HttpGet url, LogFatal ''Do: '' e])
              | Inr resp \<Rightarrow>
                  (let xTotal = Get (Header resp) ''X-Total''
                   in case Atoi xTotal of
                        Inl e \<Rightarrow> (Return (- 1, Some e), [HttpGet url, LogPrintln e])
                      | Inr issueCount \<Rightarrow> (Return (issueCount, None), [HttpGet url]))))"

definition gitlab_getStargazerCount ::
  "upstream \<Rightarrow> string \<Rightarrow> string \<Rightarrow> (int \<times> error option) go \<times> effect list" where
  "gitlab_getStargazerCount up ownr rep =
     (let url = ''https://gitlab.com/api/v4/projects/'' @ ownr @ ''%2F'' @ rep
      in case NewRequest up url of
           Some e \<Rightarrow> (Exit, [LogFatal ''NewRequest: '' e])
         | None \<Rightarrow>
             (case Do up url of
                Inl e \<Rightarrow> (Exit, [HttpGet url, LogFatal ''Do: '' e])
              | Inr resp \<Rightarrow>
                  (case Decoded resp of
                     Inl e \<Rightarrow> (Return (- 1, Some e), [HttpGet url, LogPrintln e])
                   | Inr project \<Rightarrow> (Return (StarCount project, None), [HttpGet url]))))"

text \<open>Lines 177 to 214, "Fetch data".\<close>

definition gitlab_fetch_data :: "upstream \<Rightarrow> request \<Rightarrow> vars go \<times> effect list" where
  "gitlab_fetch_data up r =
     (if requestType r = ''forks'' then
        assign (zero_vars\<lparr>subject := ''forks''\<rparr>) (gitlab_getForkCount up (owner r) (repo r))
      else if requestType r = ''issues'' then
        (let state = Get (query r) ''state'';
             sbj = (if state = ''opened'' then ''opened issues''
                    else if state = ''closed'' then ''closed issues''
                    else ''issues'')
         in assign (zero_vars\<lparr>subject := sbj\<rparr>) (gitlab_getIssueCount up (owner r) (repo r) state))
      else if requestType r = ''merge-requests'' then
        (let state = Get (query r) ''state'';
             sbj = (if state = ''opened'' then ''opened MRs''
                    else if state = ''closed'' then ''closed MRs''
                    else if state = ''locked'' then ''locked MRs''
                    else if state = ''merged'' then ''merged MRs''
                    else ''MRs'')
         in assign (zero_vars\<lparr>subject := sbj\<rparr>)
              (gitlab_getPullRequestCount up (owner r) (repo r) state))
      else if requestType r = ''stars'' then
        assign (zero_vars\<lparr>subject := ''stars''\<rparr>) (gitlab_getStargazerCount up (owner r) (repo r))
      else (Return zero_vars, []))"

text \<open>Lines 216 to 237, "Compute status" and "Overwrite any badge texts".\<close>

definition gitlab_resolve ::
  "(string \<Rightarrow> string) \<Rightarrow> vars \<Rightarrow> url_values \<Rightarrow> string \<times> string \<times> Options" where
  "gitlab_resolve quote v q =
     (let v1 = (case err v of
                  Some e \<Rightarrow> v\<lparr>status := Error_msg quote e\<rparr>
                | None \<Rightarrow> v\<lparr>status := Itoa (val v)\<rparr>);
          v2 = (if Get q ''color'' \<noteq> [] then v1\<lparr>color := Get q ''color''\<rparr> else v1);
          v3 = (if Get q ''status'' \<noteq> [] then v2\<lparr>status := Get q ''status''\<rparr> else v2);
          v4 = (if Get q ''subject'' \<noteq> [] then v3\<lparr>subject := Get q ''subject''\<rparr> else v3);
          icon = Get q ''icon'';
          style = Get q ''style''
      in (subject v4, status v4, \<lparr>Color = color v4, Icon = icon, Style = style\<rparr>))"

text \<open>Lines 236 to 248, "Generate badge".\<close>

definition gitlab_generate ::
  "externals \<Rightarrow> string \<times> string \<times> Options \<Rightarrow> response \<times> effect list" where
  "gitlab_generate ext p =
     (case p of (sbj, st, createOptions) \<Rightarrow>
        (case Create ext sbj st createOptions of
           Inl e \<Rightarrow>
             (http_Error ''Internal Server Error'' 500,
              [BadgeCreate sbj st createOptions, FmtPrintln e])
         | Inr generatedBadge \<Rightarrow>
             (\<lparr>code = 200,
               header = [(''Cache-Control'', ''public, max-age=3600, s-maxage=3600''),
                         (''Content-Type'', ''image/svg+xml;utf-8'')],
               body = generatedBadge\<rparr>,
              [BadgeCreate sbj st createOptions])))"

definition gitlab_Handler ::
  "externals \<Rightarrow> upstream \<Rightarrow> request \<Rightarrow> response go \<times> effect list" where
  "gitlab_Handler ext up r =
     (case gitlab_fetch_data up r of
        (Exit, effs) \<Rightarrow> (Exit, effs)
      | (Return v, effs) \<Rightarrow>
          (case gitlab_generate ext (gitlab_resolve (Quote ext) v (query r)) of
             (resp, effs') \<Rightarrow> (Return resp, effs @ effs')))"

section \<open>main.go: the routes\<close>

text \<open>
  \<^verbatim>\<open>newRouter\<close> sends \<^verbatim>\<open>/github/{owner}/{repo}/{requestType}\<close> to the GitHub service and
  \<^verbatim>\<open>/gitlab/{owner}/{repo}/{requestType}\<close> to the GitLab service; both implement the
  interface \<^verbatim>\<open>RepositoryService\<close>. (The static and Bitbucket services it also mounts are
  not part of these sources.)
\<close>

datatype provider = GitHub | GitLab

fun Handler :: "provider \<Rightarrow> externals \<Rightarrow> upstream \<Rightarrow> request \<Rightarrow> response go \<times> effect list" where
  "Handler GitHub = github_Handler"
| "Handler GitLab = gitlab_Handler"

fun getForkCount ::
  "provider \<Rightarrow> upstream \<Rightarrow> string \<Rightarrow> string \<Rightarrow> (int \<times> error option) go \<times> effect list" where
  "getForkCount GitHub = github_getForkCount"
| "getForkCount GitLab = gitlab_getForkCount"

fun getIssueCount ::
  "provider \<Rightarrow> upstream \<Rightarrow> string \<Rightarrow> string \<Rightarrow> string \<Rightarrow> (int \<times> error option) go \<times> effect list" where
  "getIssueCount GitHub = github_getIssueCount"
| "getIssueCount GitLab = gitlab_getIssueCount"

fun getPullRequestCount ::
  "provider \<Rightarrow> upstream \<Rightarrow> string \<Rightarrow> string \<Rightarrow> string \<Rightarrow> (int \<times> error option) go \<times> effect list" where
  "getPullRequestCount GitHub = github_getPullRequestCount"
| "getPullRequestCount GitLab = gitlab_getPullRequestCount"

fun getStargazerCount ::
  "provider \<Rightarrow> upstream \<Rightarrow> string \<Rightarrow> string \<Rightarrow> (int \<times> error option) go \<times> effect list" where
  "getStargazerCount GitHub = github_getStargazerCount"
| "getStargazerCount GitLab = gitlab_getStargazerCount"

text \<open>The stages of the handler that serves a provider's route.\<close>

fun fetch_data :: "provider \<Rightarrow> upstream \<Rightarrow> request \<Rightarrow> vars go \<times> effect list" where
  "fetch_data GitHub = github_fetch_data"
| "fetch_data GitLab = gitlab_fetch_data"

fun resolve ::
  "provider \<Rightarrow> (string \<Rightarrow> string) \<Rightarrow> vars \<Rightarrow> url_values \<Rightarrow> string \<times> string \<times> Options" where
  "resolve GitHub = github_resolve"
| "resolve GitLab = gitlab_resolve"

fun generate ::
  "provider \<Rightarrow> externals \<Rightarrow> string \<times> string \<times> Options \<Rightarrow> response \<times> effect list" where
  "generate GitHub = github_generate"
| "generate GitLab = gitlab_generate"

text \<open>A call of one of the four fetchers of the interface, with its state filter.\<close>

datatype fetcher =
    GetForkCount
  | GetIssueCount string
  | GetPullRequestCount string
  | GetStargazerCount

fun call ::
  "provider \<Rightarrow> fetcher \<Rightarrow> upstream \<Rightarrow> string \<Rightarrow> string \<Rightarrow> (int \<times> error option) go \<times> effect list" where
  "call p GetForkCount up ownr rep = getForkCount p up ownr rep"
| "call p (GetIssueCount s) up ownr rep = getIssueCount p up ownr rep s"
| "call p (GetPullRequestCount s) up ownr rep = getPullRequestCount p up ownr rep s"
| "call p GetStargazerCount up ownr rep = getStargazerCount p up ownr rep"

section \<open>The tables of the specification\<close>

text \<open>
  Section 6 of the specification: the \<^verbatim>\<open>requestType\<close> path segments of each provider.
\<close>

fun requestTypes :: "provider \<Rightarrow> string list" where
  "requestTypes GitHub = [''forks'', ''issues'', ''pull-requests'', ''stars'']"
| "requestTypes GitLab = [''forks'', ''issues'', ''merge-requests'', ''stars'']"

text \<open>
  Sections 4.1 and 4.2 of the specification: the state values each metric of a provider
  recognises, and its label for all states.
\<close>

fun vocabulary :: "provider \<Rightarrow> string \<Rightarrow> string list" where
  "vocabulary GitHub rt =
     (if rt = ''issues'' then [''open'', ''closed'']
      else if rt = ''pull-requests'' then [''open'', ''closed'', ''merged'']
      else [])"
| "vocabulary GitLab rt =
     (if rt = ''issues'' then [''opened'', ''closed'']
      else if rt = ''merge-requests'' then [''opened'', ''closed'', ''merged'', ''locked'']
      else [])"

fun default_label :: "provider \<Rightarrow> string \<Rightarrow> string" where
  "default_label GitHub rt = (if rt = ''pull-requests'' then ''PRs'' else rt)"
| "default_label GitLab rt = (if rt = ''merge-requests'' then ''MRs'' else rt)"

text \<open>The \<^verbatim>\<open>requestType\<close> of pull requests, which GitLab calls merge requests.\<close>

fun pull_requests_type :: "provider \<Rightarrow> string" where
  "pull_requests_type GitHub = ''pull-requests''"
| "pull_requests_type GitLab = ''merge-requests''"

text \<open>
  Section 4.2 of the specification: the label of a metric under a state filter, a
  recognised state followed by the label for all states.
\<close>

definition label :: "provider \<Rightarrow> string \<Rightarrow> string \<Rightarrow> string" where
  "label p rt s =
     (if s \<in> set (vocabulary p rt) then s @ '' '' @ default_label p rt
      else default_label p rt)"

text \<open>
  Section 2 of the specification: the fetcher is selected by provider and metric, and the
  state filter goes to the fetchers of issues and pull requests.
\<close>

definition metric_fetcher :: "provider \<Rightarrow> string \<Rightarrow> string \<Rightarrow> fetcher" where
  "metric_fetcher p rt s =
     (if rt = ''forks'' then GetForkCount
      else if rt = ''issues'' then GetIssueCount s
      else if rt = pull_requests_type p then GetPullRequestCount s
      else GetStargazerCount)"

text \<open>
  An upstream that reports no negative number: no \<^verbatim>\<open>X-Total\<close> header starts with a minus
  sign, and the counts decoded from a project or left by a GraphQL query are not negative.
\<close>

definition nonneg_response :: "http_response \<Rightarrow> bool" where
  "nonneg_response resp =
     ((case Get (Header resp) ''X-Total'' of [] \<Rightarrow> True | c # cs \<Rightarrow> c \<noteq> CHR ''-'') \<and>
      (case Decoded resp of
         Inl e \<Rightarrow> True
       | Inr project \<Rightarrow> 0 \<le> StarCount project \<and> 0 \<le> ForksCount project))"

definition nonneg_upstream :: "upstream \<Rightarrow> bool" where
  "nonneg_upstream up =
     ((\<forall>url resp. Do up url = Inr resp \<longrightarrow> nonneg_response resp) \<and>
      (\<forall>q. 0 \<le> fst (Query up q)))"

section \<open>Sample surroundings\<close>

text \<open>
  Modelled from the spec: \<^verbatim>\<open>badge.Create\<close> is in pkg/badge, which is not among these
  sources. By section 4.4 of the specification it gives markup, or a RenderError, "e.g.
  invalid style name". This stand-in knows the styles classic and flat and the empty
  default; for them its markup holds the subject and the status.
\<close>

definition sample_Create :: "string \<Rightarrow> string \<Rightarrow> Options \<Rightarrow> error + string" where
  "sample_Create sbj st opts =
     (if Style opts \<in> set [[], ''classic'', ''flat'']
      then Inr (''<svg>'' @ sbj @ '': '' @ st @ ''</svg>'')
      else Inl (ErrorString ''invalid style''))"

text \<open>\<^verbatim>\<open>strconv.Quote\<close> as it is on text without quotes, backslashes or control bytes.\<close>

definition sample_Quote :: "string \<Rightarrow> string" where
  "sample_Quote s = CHR 0x22 # s @ [CHR 0x22]"

definition sample_externals :: externals where
  "sample_externals = \<lparr>Create = sample_Create, Quote = sample_Quote\<rparr>"

text \<open>An upstream that answers every call with the count \<open>n\<close>.\<close>

definition upstream_counting :: "int \<Rightarrow> upstream" where
  "upstream_counting n =
     \<lparr>NewRequest = (\<lambda>url. None),
      Do = (\<lambda>url. Inr \<lparr>Header = [(''X-Total'', Itoa n)],
                        Decoded = Inr \<lparr>StarCount = n, ForksCount = n\<rparr>\<rparr>),
      Query = (\<lambda>q. (n, None))\<rparr>"

text \<open>
  An upstream whose answers cannot be read: GitLab's response has no \<^verbatim>\<open>X-Total\<close> header
  and a body that is no JSON, and the GraphQL query comes back with an error.
\<close>

definition upstream_garbled :: upstream where
  "upstream_garbled =
     \<lparr>NewRequest = (\<lambda>url. None),
      Do = (\<lambda>url. Inr \<lparr>Header = [],
                        Decoded = Inl (ErrorString ''unexpected end of JSON input'')\<rparr>),
      Query = (\<lambda>q. (0, Some (ErrorString ''Could not resolve to a Repository'')))\<rparr>"

text \<open>An upstream that cannot be reached.\<close>

definition upstream_unreachable :: upstream where
  "upstream_unreachable =
     \<lparr>NewRequest = (\<lambda>url. None),
      Do = (\<lambda>url. Inl (ErrorString ''connection refused'')),
      Query = (\<lambda>q. (0, Some (ErrorString ''connection refused'')))\<rparr>"

section \<open>The stages of a handler\<close>

lemma assign_Return:
  "assign v (Return x, effs) = (Return (v\<lparr>val := fst x, err := snd x\<rparr>), effs)"
  by (cases x) simp

lemma assign_eq_Return:
  "assign v (x, effs) = (Return v', effs') \<longleftrightarrow>
     (\<exists>n e. x = Return (n, e) \<and> v' = v\<lparr>val := n, err := e\<rparr> \<and> effs' = effs)"
  by (cases "(v, (x, effs))" rule: assign.cases) auto

lemma assign_keeps:
  "assign v x = (Return v', effs) \<Longrightarrow>
     subject v' = subject v \<and> color v' = color v \<and> status v' = status v"
  by (cases "(v, x)" rule: assign.cases) auto

lemma assign_result:
  "assign v x = (Return v', effs) \<Longrightarrow> x = (Return (val v', err v'), effs)"
  by (cases "(v, x)" rule: assign.cases) auto

text \<open>A GitHub fetcher always returns, so the GitHub handler always leaves its switch.\<close>

lemma github_fetch_data_returns:
  "\<exists>v effs. fetch_data GitHub up r = (Return v, effs)"
  by (simp add: github_fetch_data_def Let_def assign_Return
        github_getForkCount_def github_getIssueCount_def
        github_getPullRequestCount_def github_getStargazerCount_def)

lemma label_eq_iff:
  "l \<in> set (vocabulary p rt) \<Longrightarrow> label p rt s = l @ '' '' @ default_label p rt \<longleftrightarrow> s = l"
  by (cases p) (auto simp: label_def split: if_splits)

lemma label_default_iff:
  "label p rt s = default_label p rt \<longleftrightarrow> s \<notin> set (vocabulary p rt)"
  by (simp add: label_def)

text \<open>No branch of the switch assigns \<^verbatim>\<open>color\<close> or \<^verbatim>\<open>status\<close>.\<close>

lemma fetch_data_cases:
  "fetch_data p up r = (x, effs) \<Longrightarrow>
     x = Exit \<or> (\<exists>v. x = Return v \<and> color v = [] \<and> status v = [])"
  by (cases p)
     (auto simp: github_fetch_data_def gitlab_fetch_data_def zero_vars_def Let_def assign_Return
        github_getForkCount_def github_getIssueCount_def github_getPullRequestCount_def
        github_getStargazerCount_def gitlab_getForkCount_def gitlab_getIssueCount_def
        gitlab_getPullRequestCount_def gitlab_getStargazerCount_def
        split: if_splits option.splits sum.splits prod.splits)

lemma resolve_eq:
  "resolve p quote v q =
     (if Get q ''subject'' = [] then subject v else Get q ''subject'',
      if Get q ''status'' = []
      then (case err v of Some e \<Rightarrow> Error_msg quote e | None \<Rightarrow> Itoa (val v))
      else Get q ''status'',
      \<lparr>Color = (if Get q ''color'' = [] then color v else Get q ''color''),
       Icon = Get q ''icon'', Style = Get q ''style''\<rparr>)"
  by (cases p) (auto simp: github_resolve_def gitlab_resolve_def Let_def split: option.splits)

lemma generate_Inr:
  "Create ext sbj st opts = Inr svg \<Longrightarrow>
   generate p ext (sbj, st, opts) =
     (\<lparr>code = 200,
       header = [(''Cache-Control'', ''public, max-age=3600, s-maxage=3600''),
                 (''Content-Type'', ''image/svg+xml;utf-8'')],
       body = svg\<rparr>,
      [BadgeCreate sbj st opts])"
  by (cases p) (simp_all add: github_generate_def gitlab_generate_def)

lemma generate_Inl:
  "Create ext sbj st opts = Inl e \<Longrightarrow>
   generate p ext (sbj, st, opts) =
     (http_Error ''Internal Server Error'' 500, [BadgeCreate sbj st opts, FmtPrintln e])"
  by (cases p) (simp_all add: github_generate_def gitlab_generate_def)

lemma Handler_Return:
  "fetch_data p up r = (Return v, effs) \<Longrightarrow>
   Handler p ext up r =
     (Return (fst (generate p ext (resolve p (Quote ext) v (query r)))),
      effs @ snd (generate p ext (resolve p (Quote ext) v (query r))))"
  by (cases p) (simp_all add: github_Handler_def gitlab_Handler_def split: prod.splits)

lemma Handler_Exit:
  "fetch_data p up r = (Exit, effs) \<Longrightarrow> Handler p ext up r = (Exit, effs)"
  by (cases p) (simp_all add: github_Handler_def gitlab_Handler_def)

text \<open>
  Once the fetcher has returned, the handler calls the renderer on the resolved parameters
  and answers 200 with the markup, or 500 when the renderer fails.
\<close>

lemma Handler_respond:
  assumes "fetch_data p up r = (Return v, effs)"
    and "resolve p (Quote ext) v (query r) = (sbj, st, opts)"
  shows "Handler p ext up r =
     (case Create ext sbj st opts of
        Inr svg \<Rightarrow>
          (Return \<lparr>code = 200,
                   header = [(''Cache-Control'', ''public, max-age=3600, s-maxage=3600''),
                             (''Content-Type'', ''image/svg+xml;utf-8'')],
                   body = svg\<rparr>,
           effs @ [BadgeCreate sbj st opts])
      | Inl e \<Rightarrow>
          (Return (http_Error ''Internal Server Error'' 500),
           effs @ [BadgeCreate sbj st opts, FmtPrintln e]))"
  using assms by (simp add: Handler_Return generate_Inr generate_Inl split: sum.splits)

text \<open>
  A GitLab fetcher does not return when the transport fails: \<^verbatim>\<open>log.Fatal\<close> ends the
  process before the \<^verbatim>\<open>return 0, err\<close> that follows it, and no response is written.
\<close>

lemma gitlab_transport_failure_exits:
  "Handler GitLab sample_externals upstream_unreachable
     \<lparr>owner = ''acme'', repo = ''widget'', requestType = ''forks'', query = []\<rparr> =
   (Exit, [HttpGet ''https://gitlab.com/api/v4/projects/acme%2Fwidget'',
           LogFatal ''Do: '' (ErrorString ''connection refused'')])"
  by (simp add: gitlab_Handler_def gitlab_fetch_data_def gitlab_getForkCount_def
        upstream_unreachable_def zero_vars_def)

text \<open>
  The first scenario of the specification: \<^verbatim>\<open>GET /github/octocat/hello-world/stars\<close> with
  42 stargazers gives the subject \<^verbatim>\<open>stars\<close>, the status \<^verbatim>\<open>42\<close>, no color, and HTTP 200.
\<close>

lemma scenario_github_stars:
  "Handler GitHub sample_externals (upstream_counting 42)
     \<lparr>owner = ''octocat'', repo = ''hello-world'', requestType = ''stars'', query = []\<rparr> =
   (Return \<lparr>code = 200,
            header = [(''Cache-Control'', ''public, max-age=3600, s-maxage=3600''),
                      (''Content-Type'', ''image/svg+xml;utf-8'')],
            body = ''<svg>stars: 42</svg>''\<rparr>,
    [GraphQL (StargazersQuery ''octocat'' ''hello-world''),
     BadgeCreate ''stars'' ''42'' \<lparr>Color = [], Icon = [], Style = []\<rparr>])"
  by (simp add: github_Handler_def github_fetch_data_def github_getStargazerCount_def
        github_resolve_def github_generate_def upstream_counting_def zero_vars_def Get_def
        Itoa_def decimal.simps sample_externals_def sample_Create_def)

section \<open>Fetch errors\<close>

text \<open>
  C1, amended. For GitHub and GitLab, when the metric fetcher returns an error to the
  handler, the status text handed to the renderer is the error's message, unless the
  query has a non-empty \<^verbatim>\<open>status\<close> value, which is then the status text. The response is
  HTTP 200 with the renderer's markup when the renderer succeeds on these parameters,
  and HTTP 500 when the renderer itself returns an error.
\<close>

theorem fetch_error_shown_as_status:
  assumes "fetch_data p up r = (Return v, effs)"
    and "err v = Some e"
    and "resolve p (Quote ext) v (query r) = (sbj, st, opts)"
  shows "st = (if Get (query r) ''status'' = [] then Error_msg (Quote ext) e
               else Get (query r) ''status'') \<and>
         Handler p ext up r =
           (case Create ext sbj st opts of
              Inr svg \<Rightarrow>
                (Return \<lparr>code = 200,
                         header = [(''Cache-Control'', ''public, max-age=3600, s-maxage=3600''),
                                   (''Content-Type'', ''image/svg+xml;utf-8'')],
                         body = svg\<rparr>,
                 effs @ [BadgeCreate sbj st opts])
            | Inl e' \<Rightarrow>
                (Return (http_Error ''Internal Server Error'' 500),
                 effs @ [BadgeCreate sbj st opts, FmtPrintln e']))"
proof
  show "st = (if Get (query r) ''status'' = [] then Error_msg (Quote ext) e
              else Get (query r) ''status'')"
    using assms(2,3) by (auto simp: resolve_eq)
  show "Handler p ext up r =
           (case Create ext sbj st opts of
              Inr svg \<Rightarrow>
                (Return \<lparr>code = 200,
                         header = [(''Cache-Control'', ''public, max-age=3600, s-maxage=3600''),
                                   (''Content-Type'', ''image/svg+xml;utf-8'')],
                         body = svg\<rparr>,
                 effs @ [BadgeCreate sbj st opts])
            | Inl e' \<Rightarrow>
                (Return (http_Error ''Internal Server Error'' 500),
                 effs @ [BadgeCreate sbj st opts, FmtPrintln e']))"
    by (rule Handler_respond [OF assms(1,3)])
qed

text \<open>
  The theorem at a GitLab forks badge whose project body cannot be decoded: the badge
  shows the decoder's message.
\<close>

theorem fetch_error_shown_as_status_witness:
  "Handler GitLab sample_externals upstream_garbled
     \<lparr>owner = ''acme'', repo = ''widget'', requestType = ''forks'', query = []\<rparr> =
   (Return \<lparr>code = 200,
            header = [(''Cache-Control'', ''public, max-age=3600, s-maxage=3600''),
                      (''Content-Type'', ''image/svg+xml;utf-8'')],
            body = ''<svg>forks: unexpected end of JSON input</svg>''\<rparr>,
    [HttpGet ''https://gitlab.com/api/v4/projects/acme%2Fwidget'',
     LogPrintln (ErrorString ''unexpected end of JSON input''),
     BadgeCreate ''forks'' ''unexpected end of JSON input'' \<lparr>Color = [], Icon = [], Style = []\<rparr>])"
proof -
  let ?r = "\<lparr>owner = ''acme'', repo = ''widget'', requestType = ''forks'', query = []\<rparr>"
  let ?v = "\<lparr>color = [], status = [], subject = ''forks'', val = - 1,
             err = Some (ErrorString ''unexpected end of JSON input'')\<rparr>"
  let ?effs = "[HttpGet ''https://gitlab.com/api/v4/projects/acme%2Fwidget'',
                LogPrintln (ErrorString ''unexpected end of JSON input'')]"
  have f: "fetch_data GitLab upstream_garbled ?r = (Return ?v, ?effs)"
    by (simp add: gitlab_fetch_data_def gitlab_getForkCount_def upstream_garbled_def
          zero_vars_def)
  have e: "err ?v = Some (ErrorString ''unexpected end of JSON input'')"
    by simp
  have s: "resolve GitLab (Quote sample_externals) ?v (query ?r) =
             (''forks'', ''unexpected end of JSON input'', \<lparr>Color = [], Icon = [], Style = []\<rparr>)"
    by (simp add: gitlab_resolve_def Get_def)
  show ?thesis
    using fetch_error_shown_as_status [OF f e s]
    by (simp add: sample_externals_def sample_Create_def)
qed

text \<open>
  The claim as written fails where the fetch error meets a renderer error: the GraphQL
  query for the stars of a repository comes back with an error, the request asks for a
  style the renderer does not know, and the response is HTTP 500.
\<close>

theorem fetch_error_then_render_error:
  "fst (getStargazerCount GitHub upstream_unreachable ''octocat'' ''hello-world'') =
     Return (0, Some (ErrorString ''connection refused'')) \<and>
   fst (Handler GitHub sample_externals upstream_unreachable
          \<lparr>owner = ''octocat'', repo = ''hello-world'', requestType = ''stars'',
           query = [(''style'', ''plastic'')]\<rparr>) =
     Return \<lparr>code = 500,
             header = [(''Content-Type'', ''text/plain; charset=utf-8''),
                       (''X-Content-Type-Options'', ''nosniff'')],
             body = ''Internal Server Error'' @ [CHR 0x0A]\<rparr>"
  by (simp add: github_getStargazerCount_def upstream_unreachable_def github_Handler_def
        github_fetch_data_def github_resolve_def github_generate_def zero_vars_def Get_def
        sample_externals_def sample_Create_def http_Error_def)

section \<open>The two handlers resolve alike\<close>

text \<open>
  C9. The stage that computes the status and applies the query overrides is the same
  function in the GitHub and the GitLab handler: from equal variables after the fetch
  (subject, value, error) and equal query values, both give the same subject, status,
  color, icon and style to the renderer.
\<close>

theorem resolve_same_in_both_handlers:
  "github_resolve quote v q = gitlab_resolve quote v q"
  by (simp add: github_resolve_def gitlab_resolve_def)

section \<open>Query overrides\<close>

text \<open>
  Once the fetcher has returned, with a count or with an error, the parameters the
  handler resolves are the ones it hands to the renderer, and in them a non-empty
  \<^verbatim>\<open>color\<close>, \<^verbatim>\<open>status\<close> or \<^verbatim>\<open>subject\<close> query value stands verbatim in place of the
  computed value, while an empty value leaves the computed one: no color, the count or
  the error message, and the label of the metric.
\<close>

lemma query_overrides_when_fetch_returns:
  assumes "fetch_data p up r = (Return v, effs)"
    and "resolve p (Quote ext) v (query r) = (sbj, st, opts)"
  shows "snd (Handler p ext up r) =
           effs @ BadgeCreate sbj st opts #
             (case Create ext sbj st opts of Inl e \<Rightarrow> [FmtPrintln e] | Inr svg \<Rightarrow> []) \<and>
         (Get (query r) ''color'' \<noteq> [] \<longrightarrow> Color opts = Get (query r) ''color'') \<and>
         (Get (query r) ''status'' \<noteq> [] \<longrightarrow> st = Get (query r) ''status'') \<and>
         (Get (query r) ''subject'' \<noteq> [] \<longrightarrow> sbj = Get (query r) ''subject'') \<and>
         (Get (query r) ''color'' = [] \<longrightarrow> Color opts = []) \<and>
         (Get (query r) ''status'' = [] \<longrightarrow>
            st = (case err v of Some e \<Rightarrow> Error_msg (Quote ext) e | None \<Rightarrow> Itoa (val v))) \<and>
         (Get (query r) ''subject'' = [] \<longrightarrow> sbj = subject v)"
proof -
  have c: "color v = []"
    using fetch_data_cases [OF assms(1)] by auto
  have t: "snd (Handler p ext up r) =
           effs @ BadgeCreate sbj st opts #
             (case Create ext sbj st opts of Inl e \<Rightarrow> [FmtPrintln e] | Inr svg \<Rightarrow> [])"
    by (simp add: Handler_respond [OF assms] split: sum.splits)
  from assms(2) c t show ?thesis
    by (auto simp: resolve_eq)
qed

text \<open>
  The third scenario of the specification,
  \<^verbatim>\<open>/github/a/b/forks?color=orange&status=99&subject=\<close> with five forks: color and status
  are the query's, the empty subject value leaves the label.
\<close>

lemma scenario_github_forks_overridden:
  "snd (Handler GitHub sample_externals (upstream_counting 5)
          \<lparr>owner = ''a'', repo = ''b'', requestType = ''forks'',
           query = [(''color'', ''orange''), (''status'', ''99''), (''subject'', [])]\<rparr>) =
     [GraphQL (ForksQuery ''a'' ''b''),
      BadgeCreate ''forks'' ''99'' \<lparr>Color = ''orange'', Icon = [], Style = []\<rparr>]"
proof -
  let ?r = "\<lparr>owner = ''a'', repo = ''b'', requestType = ''forks'',
             query = [(''color'', ''orange''), (''status'', ''99''), (''subject'', [])]\<rparr>"
  let ?v = "\<lparr>color = [], status = [], subject = ''forks'', val = 5, err = None\<rparr>"
  have f: "fetch_data GitHub (upstream_counting 5) ?r =
             (Return ?v, [GraphQL (ForksQuery ''a'' ''b'')])"
    by (simp add: github_fetch_data_def github_getForkCount_def upstream_counting_def
          zero_vars_def assign_Return)
  have s: "resolve GitHub (Quote sample_externals) ?v (query ?r) =
             (''forks'', ''99'', \<lparr>Color = ''orange'', Icon = [], Style = []\<rparr>)"
    by (simp add: github_resolve_def Get_def)
  show ?thesis
    using query_overrides_when_fetch_returns [OF f s]
    by (simp add: sample_externals_def sample_Create_def)
qed

text \<open>
  C2. The property, that in every request a non-empty \<^verbatim>\<open>color\<close>, \<^verbatim>\<open>status\<close> or
  \<^verbatim>\<open>subject\<close> query value appears verbatim in the resolved badge parameters whatever the
  fetch gives, does not hold of the GitLab handler. At
  \<^verbatim>\<open>/gitlab/acme/widget/forks?color=orange&status=99&subject=mine\<close> with GitLab out of reach,
  \<^verbatim>\<open>client.Do\<close> fails, \<^verbatim>\<open>log.Fatal\<close> ends the process inside \<^verbatim>\<open>getForkCount\<close>, and the
  handler resolves no parameters and never calls the renderer: the three query values
  appear nowhere.
\<close>

theorem gitlab_transport_failure_drops_overrides:
  "Handler GitLab sample_externals upstream_unreachable
     \<lparr>owner = ''acme'', repo = ''widget'', requestType = ''forks'',
      query = [(''color'', ''orange''), (''status'', ''99''), (''subject'', ''mine'')]\<rparr> =
   (Exit, [HttpGet ''https://gitlab.com/api/v4/projects/acme%2Fwidget'',
           LogFatal ''Do: '' (ErrorString ''connection refused'')]) \<and>
   BadgeCreate ''mine'' ''99'' \<lparr>Color = ''orange'', Icon = [], Style = []\<rparr> \<notin>
     set (snd (Handler GitLab sample_externals upstream_unreachable
       \<lparr>owner = ''acme'', repo = ''widget'', requestType = ''forks'',
        query = [(''color'', ''orange''), (''status'', ''99''), (''subject'', ''mine'')]\<rparr>))"
  by (simp add: gitlab_Handler_def gitlab_fetch_data_def gitlab_getForkCount_def
        upstream_unreachable_def zero_vars_def)

text \<open>
  The GitHub handler, whose fetchers return their error, gives the same request its
  overrides.
\<close>

lemma github_fetch_error_keeps_overrides:
  "Handler GitHub sample_externals upstream_unreachable
     \<lparr>owner = ''acme'', repo = ''widget'', requestType = ''forks'',
      query = [(''color'', ''orange''), (''status'', ''99''), (''subject'', ''mine'')]\<rparr> =
   (Return \<lparr>code = 200,
            header = [(''Cache-Control'', ''public, max-age=3600, s-maxage=3600''),
                      (''Content-Type'', ''image/svg+xml;utf-8'')],
            body = ''<svg>mine: 99</svg>''\<rparr>,
    [GraphQL (ForksQuery ''acme'' ''widget''),
     BadgeCreate ''mine'' ''99'' \<lparr>Color = ''orange'', Icon = [], Style = []\<rparr>])"
  by (simp add: github_Handler_def github_fetch_data_def github_getForkCount_def
        github_resolve_def github_generate_def upstream_unreachable_def zero_vars_def Get_def
        sample_externals_def sample_Create_def)

section \<open>An unknown request type\<close>

lemma fetch_data_unknown:
  "requestType r \<notin> set (requestTypes p) \<Longrightarrow> fetch_data p up r = (Return zero_vars, [])"
  by (cases p) (simp_all add: github_fetch_data_def gitlab_fetch_data_def)

text \<open>
  C3, amended. For every request whose \<^verbatim>\<open>requestType\<close> matches no branch of the switch,
  the handler performs no fetch and leaves the switch with an empty subject, an empty
  status, the value zero and no error. It then calls the renderer with the query's
  subject, the status \<^verbatim>\<open>0\<close> computed from the zero value (or the query's status when that
  is not empty) and the query's color, icon and style; it answers HTTP 200 with the
  badge when the renderer succeeds and HTTP 500 when the renderer returns an error.
\<close>

theorem unknown_requestType_falls_through:
  assumes "requestType r \<notin> set (requestTypes p)"
    and "sbj = Get (query r) ''subject''"
    and "st = (if Get (query r) ''status'' = [] then ''0'' else Get (query r) ''status'')"
    and "opts = \<lparr>Color = Get (query r) ''color'', Icon = Get (query r) ''icon'',
                  Style = Get (query r) ''style''\<rparr>"
  shows "fetch_data p up r =
           (Return \<lparr>color = [], status = [], subject = [], val = 0, err = None\<rparr>, []) \<and>
         Handler p ext up r =
           (case Create ext sbj st opts of
              Inr svg \<Rightarrow>
                (Return \<lparr>code = 200,
                         header = [(''Cache-Control'', ''public, max-age=3600, s-maxage=3600''),
                                   (''Content-Type'', ''image/svg+xml;utf-8'')],
                         body = svg\<rparr>,
                 [BadgeCreate sbj st opts])
            | Inl e \<Rightarrow>
                (Return (http_Error ''Internal Server Error'' 500),
                 [BadgeCreate sbj st opts, FmtPrintln e]))"
proof -
  have f: "fetch_data p up r = (Return zero_vars, [])"
    using assms(1) by (rule fetch_data_unknown)
  have s: "resolve p (Quote ext) zero_vars (query r) = (sbj, st, opts)"
    using assms(2-4) by (simp add: resolve_eq zero_vars_def Itoa_def decimal.simps)
  show ?thesis
    using f Handler_respond [OF f s] by (simp add: zero_vars_def split: sum.splits)
qed

text \<open>
  The theorem at \<^verbatim>\<open>/gitlab/acme/widget/pull-requests\<close>, a request type only GitHub has.
\<close>

theorem unknown_requestType_falls_through_witness:
  "Handler GitLab sample_externals upstream_unreachable
     \<lparr>owner = ''acme'', repo = ''widget'', requestType = ''pull-requests'', query = []\<rparr> =
   (Return \<lparr>code = 200,
            header = [(''Cache-Control'', ''public, max-age=3600, s-maxage=3600''),
                      (''Content-Type'', ''image/svg+xml;utf-8'')],
            body = ''<svg>: 0</svg>''\<rparr>,
    [BadgeCreate [] ''0'' \<lparr>Color = [], Icon = [], Style = []\<rparr>])"
proof -
  let ?r = "\<lparr>owner = ''acme'', repo = ''widget'', requestType = ''pull-requests'', query = []\<rparr>"
  have u: "requestType ?r \<notin> set (requestTypes GitLab)"
    by simp
  have a: "[] = Get (query ?r) ''subject''"
    by (simp add: Get_def)
  have b: "''0'' = (if Get (query ?r) ''status'' = [] then ''0'' else Get (query ?r) ''status'')"
    by (simp add: Get_def)
  have c: "\<lparr>Color = [], Icon = [], Style = []\<rparr> =
           \<lparr>Color = Get (query ?r) ''color'', Icon = Get (query ?r) ''icon'',
            Style = Get (query ?r) ''style''\<rparr>"
    by (simp add: Get_def)
  show ?thesis
    using unknown_requestType_falls_through [OF u a b c, of upstream_unreachable sample_externals]
    by (simp add: sample_externals_def sample_Create_def)
qed

text \<open>
  The claim as written fails at \<^verbatim>\<open>/github/octocat/hello-world/releases?style=plastic\<close>:
  no fetch is made and the switch leaves the zero values, but the renderer rejects the
  style and the response is HTTP 500 with a plain-text body, not a badge.
\<close>

theorem unknown_requestType_render_error:
  "fetch_data GitHub upstream_unreachable
     \<lparr>owner = ''octocat'', repo = ''hello-world'', requestType = ''releases'',
      query = [(''style'', ''plastic'')]\<rparr> =
     (Return \<lparr>color = [], status = [], subject = [], val = 0, err = None\<rparr>, []) \<and>
   Handler GitHub sample_externals upstream_unreachable
     \<lparr>owner = ''octocat'', repo = ''hello-world'', requestType = ''releases'',
      query = [(''style'', ''plastic'')]\<rparr> =
     (Return \<lparr>code = 500,
              header = [(''Content-Type'', ''text/plain; charset=utf-8''),
                        (''X-Content-Type-Options'', ''nosniff'')],
              body = ''Internal Server Error'' @ [CHR 0x0A]\<rparr>,
      [BadgeCreate [] ''0'' \<lparr>Color = [], Icon = [], Style = ''plastic''\<rparr>,
       FmtPrintln (ErrorString ''invalid style'')])"
  by (simp add: github_Handler_def github_fetch_data_def github_resolve_def github_generate_def
        zero_vars_def Get_def Itoa_def decimal.simps sample_externals_def sample_Create_def
        http_Error_def)

section \<open>Render errors\<close>

text \<open>
  C8. For every request in which the badge renderer returns an error, the response is
  HTTP 500 with the plain-text body \<^verbatim>\<open>Internal Server Error\<close>: no SVG markup is written,
  there is no \<^verbatim>\<open>Cache-Control\<close> header, and the content type is not
  \<^verbatim>\<open>image/svg+xml\<close>.
\<close>

theorem render_error_is_500:
  assumes "fetch_data p up r = (Return v, effs)"
    and "resolve p (Quote ext) v (query r) = (sbj, st, opts)"
    and "Create ext sbj st opts = Inl e"
  shows "\<exists>resp.
           Handler p ext up r = (Return resp, effs @ [BadgeCreate sbj st opts, FmtPrintln e]) \<and>
           code resp = 500 \<and>
           body resp = ''Internal Server Error'' @ [CHR 0x0A] \<and>
           header resp = [(''Content-Type'', ''text/plain; charset=utf-8''),
                          (''X-Content-Type-Options'', ''nosniff'')] \<and>
           map_of (header resp) ''Cache-Control'' = None \<and>
           map_of (header resp) ''Content-Type'' \<noteq> Some ''image/svg+xml;utf-8''"
  using Handler_respond [OF assms(1,2)] assms(3)
  by (simp add: http_Error_def)

text \<open>
  The theorem at \<^verbatim>\<open>/gitlab/acme/widget/stars?style=plastic\<close>, a style the sample renderer
  rejects.
\<close>

theorem render_error_is_500_witness:
  "Handler GitLab sample_externals (upstream_counting 7)
     \<lparr>owner = ''acme'', repo = ''widget'', requestType = ''stars'',
      query = [(''style'', ''plastic'')]\<rparr> =
   (Return \<lparr>code = 500,
            header = [(''Content-Type'', ''text/plain; charset=utf-8''),
                      (''X-Content-Type-Options'', ''nosniff'')],
            body = ''Internal Server Error'' @ [CHR 0x0A]\<rparr>,
    [HttpGet ''https://gitlab.com/api/v4/projects/acme%2Fwidget'',
     BadgeCreate ''stars'' ''7'' \<lparr>Color = [], Icon = [], Style = ''plastic''\<rparr>,
     FmtPrintln (ErrorString ''invalid style'')])"
proof -
  let ?r = "\<lparr>owner = ''acme'', repo = ''widget'', requestType = ''stars'',
             query = [(''style'', ''plastic'')]\<rparr>"
  let ?v = "\<lparr>color = [], status = [], subject = ''stars'', val = 7, err = None\<rparr>"
  let ?opts = "\<lparr>Color = [], Icon = [], Style = ''plastic''\<rparr>"
  have f: "fetch_data GitLab (upstream_counting 7) ?r =
             (Return ?v, [HttpGet ''https://gitlab.com/api/v4/projects/acme%2Fwidget''])"
    by (simp add: gitlab_fetch_data_def gitlab_getStargazerCount_def upstream_counting_def
          zero_vars_def)
  have s: "resolve GitLab (Quote sample_externals) ?v (query ?r) = (''stars'', ''7'', ?opts)"
    by (simp add: gitlab_resolve_def Get_def Itoa_def decimal.simps)
  have c: "Create sample_externals ''stars'' ''7'' ?opts = Inl (ErrorString ''invalid style'')"
    by (simp add: sample_externals_def sample_Create_def)
  obtain resp where
    "Handler GitLab sample_externals (upstream_counting 7) ?r =
       (Return resp, [HttpGet ''https://gitlab.com/api/v4/projects/acme%2Fwidget''] @
          [BadgeCreate ''stars'' ''7'' ?opts, FmtPrintln (ErrorString ''invalid style'')])"
    and "code resp = 500"
    and "body resp = ''Internal Server Error'' @ [CHR 0x0A]"
    and "header resp = [(''Content-Type'', ''text/plain; charset=utf-8''),
                        (''X-Content-Type-Options'', ''nosniff'')]"
    using render_error_is_500 [OF f s c] by blast
  then show ?thesis
    by (cases resp) simp
qed

section \<open>State filters and labels\<close>

text \<open>
  C5. For each provider and each of its request types, a \<^verbatim>\<open>state\<close> query value outside
  the vocabulary of that pair, an absent one included, gives the label for all states as
  the computed subject: \<^verbatim>\<open>issues\<close>, \<^verbatim>\<open>PRs\<close> for GitHub pull requests, \<^verbatim>\<open>MRs\<close> for GitLab
  merge requests, and \<^verbatim>\<open>forks\<close> and \<^verbatim>\<open>stars\<close>, which know no state. The switch sets the
  subject to that label and then assigns what the metric's fetcher gives; whenever the
  fetcher returns, which a GitHub fetcher always does, the handler goes on with that
  subject.
\<close>

theorem unrecognised_state_gives_default_label:
  assumes "requestType r \<in> set (requestTypes p)"
    and "map_of (query r) ''state'' = None \<or>
         Get (query r) ''state'' \<notin> set (vocabulary p (requestType r))"
  shows "fetch_data p up r =
           assign (zero_vars\<lparr>subject := default_label p (requestType r)\<rparr>)
             (call p (metric_fetcher p (requestType r) (Get (query r) ''state''))
                up (owner r) (repo r)) \<and>
         (\<forall>n e effs.
            call p (metric_fetcher p (requestType r) (Get (query r) ''state''))
              up (owner r) (repo r) = (Return (n, e), effs) \<longrightarrow>
            fetch_data p up r =
              (Return \<lparr>color = [], status = [], subject = default_label p (requestType r),
                       val = n, err = e\<rparr>, effs)) \<and>
         (\<forall>v effs. fetch_data p up r = (Return v, effs) \<longrightarrow>
            subject v = default_label p (requestType r)) \<and>
         (p = GitHub \<longrightarrow> (\<exists>v effs. fetch_data p up r = (Return v, effs)))"
proof -
  have n: "Get (query r) ''state'' \<notin> set (vocabulary p (requestType r))"
    using assms(2) by (cases p) (auto simp: Get_def)
  have eq: "fetch_data p up r =
           assign (zero_vars\<lparr>subject := default_label p (requestType r)\<rparr>)
             (call p (metric_fetcher p (requestType r) (Get (query r) ''state''))
                up (owner r) (repo r))"
    using assms(1) n
    by (cases p)
       (auto simp: github_fetch_data_def gitlab_fetch_data_def Let_def metric_fetcher_def)
  have ret: "fetch_data p up r =
              (Return \<lparr>color = [], status = [], subject = default_label p (requestType r),
                       val = n, err = e\<rparr>, effs)"
    if "call p (metric_fetcher p (requestType r) (Get (query r) ''state''))
              up (owner r) (repo r) = (Return (n, e), effs)" for n e effs
    using that by (simp add: eq zero_vars_def)
  have sub: "subject v = default_label p (requestType r)"
    if "fetch_data p up r = (Return v, effs)" for v effs
    using that assign_keeps [of _ _ v effs] by (simp add: eq)
  have gh: "\<exists>v effs. fetch_data p up r = (Return v, effs)" if "p = GitHub"
    using that github_fetch_data_returns by simp
  from eq ret sub gh show ?thesis
    by blast
qed

text \<open>
  The theorem at \<^verbatim>\<open>/github/octocat/hello-world/pull-requests?state=opened\<close>, where
  \<^verbatim>\<open>opened\<close> is GitLab's word, and at \<^verbatim>\<open>/gitlab/acme/widget/merge-requests\<close> with no state.
\<close>

theorem unrecognised_state_gives_default_label_witness:
  "fetch_data GitHub (upstream_counting 3)
     \<lparr>owner = ''octocat'', repo = ''hello-world'', requestType = ''pull-requests'',
      query = [(''state'', ''opened'')]\<rparr> =
     (Return \<lparr>color = [], status = [], subject = ''PRs'', val = 3, err = None\<rparr>,
      [GraphQL (PullRequestsQuery ''octocat'' ''hello-world''
         [PullRequestStateOpen, PullRequestStateClosed, PullRequestStateMerged])]) \<and>
   fetch_data GitLab (upstream_counting 7)
     \<lparr>owner = ''acme'', repo = ''widget'', requestType = ''merge-requests'', query = []\<rparr> =
     (Return \<lparr>color = [], status = [], subject = ''MRs'', val = 7, err = None\<rparr>,
      [HttpGet ''https://gitlab.com/api/v4/projects/acme%2Fwidget/merge_requests''])"
proof -
  let ?g = "\<lparr>owner = ''octocat'', repo = ''hello-world'', requestType = ''pull-requests'',
             query = [(''state'', ''opened'')]\<rparr>"
  let ?l = "\<lparr>owner = ''acme'', repo = ''widget'', requestType = ''merge-requests'',
             query = []\<rparr>"
  have a: "requestType ?g \<in> set (requestTypes GitHub)"
    by simp
  have b: "map_of (query ?g) ''state'' = None \<or>
           Get (query ?g) ''state'' \<notin> set (vocabulary GitHub (requestType ?g))"
    by (simp add: Get_def)
  have c: "requestType ?l \<in> set (requestTypes GitLab)"
    by simp
  have d: "map_of (query ?l) ''state'' = None \<or>
           Get (query ?l) ''state'' \<notin> set (vocabulary GitLab (requestType ?l))"
    by simp
  have g: "call GitHub (metric_fetcher GitHub (requestType ?g) (Get (query ?g) ''state''))
             (upstream_counting 3) (owner ?g) (repo ?g) =
           (Return (3, None),
            [GraphQL (PullRequestsQuery ''octocat'' ''hello-world''
               [PullRequestStateOpen, PullRequestStateClosed, PullRequestStateMerged])])"
    by (simp add: metric_fetcher_def Get_def github_getPullRequestCount_def
          upstream_counting_def)
  have l: "call GitLab (metric_fetcher GitLab (requestType ?l) (Get (query ?l) ''state''))
             (upstream_counting 7) (owner ?l) (repo ?l) =
           (Return (7, None),
            [HttpGet ''https://gitlab.com/api/v4/projects/acme%2Fwidget/merge_requests''])"
    by (simp add: metric_fetcher_def Get_def gitlab_getPullRequestCount_def
          gitlab_merge_requests_url_def upstream_counting_def
          Itoa_def decimal.simps Atoi_def ParseUint_def is_digit_def digit_val_def)
  show ?thesis
    using unrecognised_state_gives_default_label [OF a b, of "upstream_counting 3"]
          unrecognised_state_gives_default_label [OF c d, of "upstream_counting 7"] g l
    by (simp add: zero_vars_def)
qed

text \<open>
  C6. The URL a GitLab issues fetch requests carries \<^verbatim>\<open>?state=\<close> only for the values
  \<^verbatim>\<open>opened\<close> and \<^verbatim>\<open>closed\<close>, and the URL of a merge-requests fetch only for \<^verbatim>\<open>opened\<close>,
  \<^verbatim>\<open>closed\<close>, \<^verbatim>\<open>merged\<close> and \<^verbatim>\<open>locked\<close>; for every other state value it is the URL of the
  listing with nothing appended. This URL is the only one the fetcher requests.
\<close>

theorem gitlab_state_filter_in_url:
  "gitlab_issues_url ownr rep s =
     ''https://gitlab.com/api/v4/projects/'' @ ownr @ ''%2F'' @ rep @ ''/issues'' @
       (if s \<in> set [''opened'', ''closed''] then ''?state='' @ s else []) \<and>
   gitlab_merge_requests_url ownr rep s =
     ''https://gitlab.com/api/v4/projects/'' @ ownr @ ''%2F'' @ rep @ ''/merge_requests'' @
       (if s \<in> set [''opened'', ''closed'', ''merged'', ''locked''] then ''?state='' @ s else []) \<and>
   [u. HttpGet u \<leftarrow> snd (getIssueCount GitLab up ownr rep s)] =
     (if NewRequest up (gitlab_issues_url ownr rep s) = None
      then [gitlab_issues_url ownr rep s] else []) \<and>
   [u. HttpGet u \<leftarrow> snd (getPullRequestCount GitLab up ownr rep s)] =
     (if NewRequest up (gitlab_merge_requests_url ownr rep s) = None
      then [gitlab_merge_requests_url ownr rep s] else [])"
proof (intro conjI)
  show "gitlab_issues_url ownr rep s =
     ''https://gitlab.com/api/v4/projects/'' @ ownr @ ''%2F'' @ rep @ ''/issues'' @
       (if s \<in> set [''opened'', ''closed''] then ''?state='' @ s else [])"
    by (simp add: gitlab_issues_url_def)
  show "gitlab_merge_requests_url ownr rep s =
     ''https://gitlab.com/api/v4/projects/'' @ ownr @ ''%2F'' @ rep @ ''/merge_requests'' @
       (if s \<in> set [''opened'', ''closed'', ''merged'', ''locked''] then ''?state='' @ s else [])"
    by (simp add: gitlab_merge_requests_url_def)
  show "[u. HttpGet u \<leftarrow> snd (getIssueCount GitLab up ownr rep s)] =
     (if NewRequest up (gitlab_issues_url ownr rep s) = None
      then [gitlab_issues_url ownr rep s] else [])"
    by (simp add: gitlab_getIssueCount_def Let_def split: option.splits sum.splits)
  show "[u. HttpGet u \<leftarrow> snd (getPullRequestCount GitLab up ownr rep s)] =
     (if NewRequest up (gitlab_merge_requests_url ownr rep s) = None
      then [gitlab_merge_requests_url ownr rep s] else [])"
    by (simp add: gitlab_getPullRequestCount_def Let_def split: option.splits sum.splits)
qed

lemma IssueState_UNIV: "set [IssueStateOpen, IssueStateClosed] = UNIV"
proof -
  have "x \<in> set [IssueStateOpen, IssueStateClosed]" for x
    by (cases x) simp_all
  then show ?thesis by blast
qed

lemma PullRequestState_UNIV:
  "set [PullRequestStateOpen, PullRequestStateClosed, PullRequestStateMerged] = UNIV"
proof -
  have "x \<in> set [PullRequestStateOpen, PullRequestStateClosed, PullRequestStateMerged]" for x
    by (cases x) simp_all
  then show ?thesis by blast
qed

text \<open>
  C7. A GitHub issues fetch whose state filter is neither \<^verbatim>\<open>open\<close> nor \<^verbatim>\<open>closed\<close> (an
  absent one included) sends the query with \<^verbatim>\<open>states\<close> listing OPEN and CLOSED, and a
  pull-requests fetch whose filter is none of \<^verbatim>\<open>open\<close>, \<^verbatim>\<open>closed\<close>, \<^verbatim>\<open>merged\<close> sends OPEN,
  CLOSED and MERGED: every state value there is, not an omitted argument.
\<close>

theorem github_unfiltered_query_lists_every_state:
  "(s \<notin> set [''open'', ''closed''] \<longrightarrow>
      getIssueCount GitHub up ownr rep s =
        (Return (Query up (IssuesQuery ownr rep [IssueStateOpen, IssueStateClosed])),
         [GraphQL (IssuesQuery ownr rep [IssueStateOpen, IssueStateClosed])])) \<and>
   (s \<notin> set [''open'', ''closed'', ''merged''] \<longrightarrow>
      getPullRequestCount GitHub up ownr rep s =
        (Return (Query up (PullRequestsQuery ownr rep
                   [PullRequestStateOpen, PullRequestStateClosed, PullRequestStateMerged])),
         [GraphQL (PullRequestsQuery ownr rep
                   [PullRequestStateOpen, PullRequestStateClosed, PullRequestStateMerged])])) \<and>
   set [IssueStateOpen, IssueStateClosed] = UNIV \<and>
   set [PullRequestStateOpen, PullRequestStateClosed, PullRequestStateMerged] = UNIV"
  using IssueState_UNIV PullRequestState_UNIV
  by (simp add: github_getIssueCount_def github_getPullRequestCount_def Let_def)

text \<open>The theorem at an absent state, and at GitLab's word \<^verbatim>\<open>opened\<close>.\<close>

theorem github_unfiltered_query_lists_every_state_witness:
  "getIssueCount GitHub (upstream_counting 3) ''octocat'' ''hello-world'' [] =
     (Return (3, None),
      [GraphQL (IssuesQuery ''octocat'' ''hello-world'' [IssueStateOpen, IssueStateClosed])]) \<and>
   getPullRequestCount GitHub (upstream_counting 3) ''octocat'' ''hello-world'' ''opened'' =
     (Return (3, None),
      [GraphQL (PullRequestsQuery ''octocat'' ''hello-world''
         [PullRequestStateOpen, PullRequestStateClosed, PullRequestStateMerged])])"
proof -
  have a: "[] \<notin> set [''open'', ''closed'']"
    by simp
  have b: "''opened'' \<notin> set [''open'', ''closed'', ''merged'']"
    by simp
  show ?thesis
    using github_unfiltered_query_lists_every_state
            [of "[]" "upstream_counting 3" "''octocat''" "''hello-world''"]
          github_unfiltered_query_lists_every_state
            [of "''opened''" "upstream_counting 3" "''octocat''" "''hello-world''"]
          a b
    by (simp add: upstream_counting_def)
qed

text \<open>
  C10. In every handler the state query value is read once; that value is the filter
  given to the fetcher and the one the subject is computed from: the switch sets the
  subject to the label of that value and then assigns what the fetcher, called with
  that value, gives. So the label matches the filter: the label is a recognised state
  followed by the metric's label exactly when the filter is that state, and the bare
  label exactly when the filter is unrecognised. In particular the subject is
  \<^verbatim>\<open>closed issues\<close> if and only if the issue fetcher is given \<^verbatim>\<open>closed\<close>. A GitHub
  handler always leaves its switch.
\<close>

theorem label_matches_filter:
  fixes r :: request and s :: string
  defines "s \<equiv> Get (query r) ''state''"
  shows "(requestType r = ''issues'' \<longrightarrow>
            fetch_data p up r =
              assign (zero_vars\<lparr>subject := label p ''issues'' s\<rparr>)
                (getIssueCount p up (owner r) (repo r) s) \<and>
            (\<forall>v effs. fetch_data p up r = (Return v, effs) \<longrightarrow>
               getIssueCount p up (owner r) (repo r) s = (Return (val v, err v), effs) \<and>
               subject v = label p ''issues'' s)) \<and>
         (requestType r = pull_requests_type p \<longrightarrow>
            fetch_data p up r =
              assign (zero_vars\<lparr>subject := label p (pull_requests_type p) s\<rparr>)
                (getPullRequestCount p up (owner r) (repo r) s) \<and>
            (\<forall>v effs. fetch_data p up r = (Return v, effs) \<longrightarrow>
               getPullRequestCount p up (owner r) (repo r) s = (Return (val v, err v), effs) \<and>
               subject v = label p (pull_requests_type p) s)) \<and>
         (\<forall>rt. (\<forall>l \<in> set (vocabulary p rt).
                  label p rt s = l @ '' '' @ default_label p rt \<longleftrightarrow> s = l) \<and>
               (label p rt s = default_label p rt \<longleftrightarrow> s \<notin> set (vocabulary p rt))) \<and>
         (label p ''issues'' s = ''closed issues'' \<longleftrightarrow> s = ''closed'') \<and>
         (p = GitHub \<longrightarrow> (\<exists>v effs. fetch_data p up r = (Return v, effs)))"
proof (intro conjI impI allI ballI)
  assume rt: "requestType r = ''issues''"
  show a: "fetch_data p up r =
             assign (zero_vars\<lparr>subject := label p ''issues'' s\<rparr>)
               (getIssueCount p up (owner r) (repo r) s)"
    using rt
    by (cases p)
       (auto simp: github_fetch_data_def gitlab_fetch_data_def Let_def label_def s_def)
  fix v effs
  assume "fetch_data p up r = (Return v, effs)"
  with a have b: "assign (zero_vars\<lparr>subject := label p ''issues'' s\<rparr>)
               (getIssueCount p up (owner r) (repo r) s) = (Return v, effs)"
    by simp
  show "getIssueCount p up (owner r) (repo r) s = (Return (val v, err v), effs)"
    using assign_result [OF b] .
  show "subject v = label p ''issues'' s"
    using assign_keeps [OF b] by simp
next
  assume rt: "requestType r = pull_requests_type p"
  show a: "fetch_data p up r =
             assign (zero_vars\<lparr>subject := label p (pull_requests_type p) s\<rparr>)
               (getPullRequestCount p up (owner r) (repo r) s)"
    using rt
    by (cases p)
       (auto simp: github_fetch_data_def gitlab_fetch_data_def Let_def label_def s_def)
  fix v effs
  assume "fetch_data p up r = (Return v, effs)"
  with a have b: "assign (zero_vars\<lparr>subject := label p (pull_requests_type p) s\<rparr>)
               (getPullRequestCount p up (owner r) (repo r) s) = (Return v, effs)"
    by simp
  show "getPullRequestCount p up (owner r) (repo r) s = (Return (val v, err v), effs)"
    using assign_result [OF b] .
  show "subject v = label p (pull_requests_type p) s"
    using assign_keeps [OF b] by simp
next
  fix rt l
  assume "l \<in> set (vocabulary p rt)"
  then show "label p rt s = l @ '' '' @ default_label p rt \<longleftrightarrow> s = l"
    by (rule label_eq_iff)
next
  fix rt
  show "label p rt s = default_label p rt \<longleftrightarrow> s \<notin> set (vocabulary p rt)"
    by (rule label_default_iff)
next
  show "label p ''issues'' s = ''closed issues'' \<longleftrightarrow> s = ''closed''"
    by (cases p) (auto simp: label_def)
next
  assume "p = GitHub"
  then show "\<exists>v effs. fetch_data p up r = (Return v, effs)"
    using github_fetch_data_returns by simp
qed

text \<open>
  The theorem at \<^verbatim>\<open>/github/octocat/hello-world/issues?state=closed\<close> with three closed
  issues and at \<^verbatim>\<open>/gitlab/acme/widget/issues?state=closed\<close> with seven: the subject is
  \<^verbatim>\<open>closed issues\<close>, and the fetcher asked for the closed issues.
\<close>

theorem label_matches_filter_witness:
  "fetch_data GitHub (upstream_counting 3)
     \<lparr>owner = ''octocat'', repo = ''hello-world'', requestType = ''issues'',
      query = [(''state'', ''closed'')]\<rparr> =
     (Return \<lparr>color = [], status = [], subject = ''closed issues'', val = 3, err = None\<rparr>,
      [GraphQL (IssuesQuery ''octocat'' ''hello-world'' [IssueStateClosed])]) \<and>
   fetch_data GitLab (upstream_counting 7)
     \<lparr>owner = ''acme'', repo = ''widget'', requestType = ''issues'',
      query = [(''state'', ''closed'')]\<rparr> =
     (Return \<lparr>color = [], status = [], subject = ''closed issues'', val = 7, err = None\<rparr>,
      [HttpGet ''https://gitlab.com/api/v4/projects/acme%2Fwidget/issues?state=closed''])"
proof -
  let ?g = "\<lparr>owner = ''octocat'', repo = ''hello-world'', requestType = ''issues'',
             query = [(''state'', ''closed'')]\<rparr>"
  let ?l = "\<lparr>owner = ''acme'', repo = ''widget'', requestType = ''issues'',
             query = [(''state'', ''closed'')]\<rparr>"
  have tg: "requestType ?g = ''issues''"
    by simp
  have tl: "requestType ?l = ''issues''"
    by simp
  have g: "getIssueCount GitHub (upstream_counting 3) ''octocat'' ''hello-world'' ''closed'' =
             (Return (3, None),
              [GraphQL (IssuesQuery ''octocat'' ''hello-world'' [IssueStateClosed])])"
    by (simp add: github_getIssueCount_def upstream_counting_def)
  have l: "getIssueCount GitLab (upstream_counting 7) ''acme'' ''widget'' ''closed'' =
             (Return (7, None),
              [HttpGet ''https://gitlab.com/api/v4/projects/acme%2Fwidget/issues?state=closed''])"
    by (simp add: gitlab_getIssueCount_def gitlab_issues_url_def upstream_counting_def Get_def
          Itoa_def decimal.simps Atoi_def ParseUint_def is_digit_def digit_val_def)
  have lg: "label GitHub ''issues'' ''closed'' = ''closed issues''"
    by (simp add: label_def)
  have ll: "label GitLab ''issues'' ''closed'' = ''closed issues''"
    by (simp add: label_def)
  have sg: "Get (query ?g) ''state'' = ''closed''"
    by (simp add: Get_def)
  have sl: "Get (query ?l) ''state'' = ''closed''"
    by (simp add: Get_def)
  have eg: "fetch_data GitHub (upstream_counting 3) ?g =
              assign (zero_vars\<lparr>subject := label GitHub ''issues'' (Get (query ?g) ''state'')\<rparr>)
                (getIssueCount GitHub (upstream_counting 3) (owner ?g) (repo ?g)
                   (Get (query ?g) ''state''))"
    using label_matches_filter [where r = ?g and p = GitHub and up = "upstream_counting 3",
            THEN conjunct1, rule_format, OF tg, THEN conjunct1] .
  have el: "fetch_data GitLab (upstream_counting 7) ?l =
              assign (zero_vars\<lparr>subject := label GitLab ''issues'' (Get (query ?l) ''state'')\<rparr>)
                (getIssueCount GitLab (upstream_counting 7) (owner ?l) (repo ?l)
                   (Get (query ?l) ''state''))"
    using label_matches_filter [where r = ?l and p = GitLab and up = "upstream_counting 7",
            THEN conjunct1, rule_format, OF tl, THEN conjunct1] .
  have "fetch_data GitHub (upstream_counting 3) ?g =
     (Return \<lparr>color = [], status = [], subject = ''closed issues'', val = 3, err = None\<rparr>,
      [GraphQL (IssuesQuery ''octocat'' ''hello-world'' [IssueStateClosed])])"
    unfolding eg sg lg using g by (simp add: zero_vars_def)
  moreover have "fetch_data GitLab (upstream_counting 7) ?l =
     (Return \<lparr>color = [], status = [], subject = ''closed issues'', val = 7, err = None\<rparr>,
      [HttpGet ''https://gitlab.com/api/v4/projects/acme%2Fwidget/issues?state=closed''])"
    unfolding el sl ll using l by (simp add: zero_vars_def)
  ultimately show ?thesis
    by (rule conjI)
qed

section \<open>What a fetcher returns\<close>

lemma digit_val_nonneg: "is_digit c \<Longrightarrow> 0 \<le> digit_val c"
  by (auto simp: is_digit_def digit_val_def)

lemma ParseUint_loop_nonneg:
  "ParseUint_loop n s = Inr m \<Longrightarrow> 0 \<le> n \<Longrightarrow> 0 \<le> m"
proof (induction s arbitrary: n)
  case Nil
  then show ?case by simp
next
  case (Cons c cs)
  from Cons.prems(1) have d: "is_digit c"
    and rec: "ParseUint_loop (n * 10 + digit_val c) cs = Inr m"
    by (auto split: if_splits)
  have "0 \<le> n * 10 + digit_val c"
    using Cons.prems(2) digit_val_nonneg [OF d] by simp
  with rec show ?case by (rule Cons.IH)
qed

text \<open>\<^verbatim>\<open>Atoi\<close> gives a negative number only for a text that starts with a minus sign.\<close>

lemma Atoi_nonneg:
  assumes "Atoi s = Inr n"
    and "case s of [] \<Rightarrow> True | c # cs \<Rightarrow> c \<noteq> CHR ''-''"
  shows "0 \<le> n"
proof (cases s)
  case Nil
  with assms(1) show ?thesis by (simp add: Atoi_def)
next
  case (Cons c cs)
  with assms(2) have c: "c \<noteq> CHR ''-''" by simp
  from assms(1) Cons c obtain un where
    "ParseUint (if c = CHR ''+'' then cs else s) = Inr un" and "n = un"
    by (auto simp: Atoi_def Let_def split: sum.splits if_splits)
  then show ?thesis
    by (auto simp: ParseUint_def split: if_splits dest: ParseUint_loop_nonneg)
qed

text \<open>With an error set, the handler does not read the count.\<close>

lemma resolve_ignores_val:
  "e \<noteq> None \<Longrightarrow>
   resolve p quote (v\<lparr>val := n, err := e\<rparr>) q = resolve p quote (v\<lparr>val := n', err := e\<rparr>) q"
  by (auto simp: resolve_eq)

lemma github_call:
  "call GitHub f up ownr rep = (Return (n, e), effs) \<Longrightarrow> \<exists>q. Query up q = (n, e)"
  by (cases f)
     (auto simp: github_getForkCount_def github_getIssueCount_def
        github_getPullRequestCount_def github_getStargazerCount_def Let_def intro: exI)

lemma gitlab_call_error:
  "call GitLab f up ownr rep = (Return (n, e), effs) \<Longrightarrow> e \<noteq> None \<Longrightarrow> n = - 1"
  by (cases f)
     (auto simp: gitlab_getForkCount_def gitlab_getIssueCount_def
        gitlab_getPullRequestCount_def gitlab_getStargazerCount_def Let_def
        split: option.splits sum.splits)

lemma gitlab_call_count:
  assumes "call GitLab f up ownr rep = (Return (n, None), effs)"
  shows "\<exists>url resp. Do up url = Inr resp \<and>
           (Atoi (Get (Header resp) ''X-Total'') = Inr n \<or>
            (\<exists>project. Decoded resp = Inr project \<and>
               (n = ForksCount project \<or> n = StarCount project)))"
  using assms
  by (cases f)
     (auto simp: gitlab_getForkCount_def gitlab_getIssueCount_def
        gitlab_getPullRequestCount_def gitlab_getStargazerCount_def Let_def
        split: option.splits sum.splits)

lemma call_count_nonneg:
  assumes "call p f up ownr rep = (Return (n, None), effs)" and "nonneg_upstream up"
  shows "0 \<le> n"
proof (cases p)
  case GitHub
  with assms(1) obtain q where "Query up q = (n, None)"
    by (auto dest: github_call)
  then have "n = fst (Query up q)"
    by (metis fst_conv)
  with assms(2) show ?thesis
    by (simp add: nonneg_upstream_def)
next
  case GitLab
  with assms(1) obtain url resp where d: "Do up url = Inr resp"
    and n: "Atoi (Get (Header resp) ''X-Total'') = Inr n \<or>
            (\<exists>project. Decoded resp = Inr project \<and>
               (n = ForksCount project \<or> n = StarCount project))"
    by (auto dest: gitlab_call_count)
  from assms(2) d have r: "nonneg_response resp"
    by (simp add: nonneg_upstream_def)
  from n show ?thesis
  proof
    assume a: "Atoi (Get (Header resp) ''X-Total'') = Inr n"
    from r have "case Get (Header resp) ''X-Total'' of [] \<Rightarrow> True | c # cs \<Rightarrow> c \<noteq> CHR ''-''"
      by (simp add: nonneg_response_def)
    with a show ?thesis by (rule Atoi_nonneg)
  next
    assume "\<exists>project. Decoded resp = Inr project \<and>
               (n = ForksCount project \<or> n = StarCount project)"
    with r show ?thesis
      by (auto simp: nonneg_response_def)
  qed
qed

text \<open>
  C4, amended. Every call of a fetcher that returns gives either a count with no error,
  which is not negative when the upstream reports no negative number, or an error. With
  an error the count is not meaningful: the handler resolves the same badge whatever it
  is, and GitLab's fetchers return \<open>- 1\<close> with it, so a fetcher can return a negative
  count.
\<close>

theorem fetcher_count_or_error:
  assumes "call p f up ownr rep = (Return (n, e), effs)"
  shows "(e = None \<longrightarrow> nonneg_upstream up \<longrightarrow> 0 \<le> n) \<and>
         (e \<noteq> None \<longrightarrow>
            (p = GitLab \<longrightarrow> n = - 1) \<and>
            (\<forall>quote v q n'. resolve p quote (v\<lparr>val := n, err := e\<rparr>) q =
                            resolve p quote (v\<lparr>val := n', err := e\<rparr>) q))"
  using assms
  by (auto dest: call_count_nonneg gitlab_call_error simp: resolve_ignores_val)

text \<open>
  The theorem at a GitLab listing of seven closed issues, and at a project whose body
  cannot be decoded.
\<close>

theorem fetcher_count_or_error_witness:
  "call GitLab (GetIssueCount ''closed'') (upstream_counting 7) ''acme'' ''widget'' =
     (Return (7, None),
      [HttpGet ''https://gitlab.com/api/v4/projects/acme%2Fwidget/issues?state=closed'']) \<and>
   nonneg_upstream (upstream_counting 7) \<and> (0 :: int) \<le> 7 \<and>
   call GitLab GetStargazerCount upstream_garbled ''acme'' ''widget'' =
     (Return (- 1, Some (ErrorString ''unexpected end of JSON input'')),
      [HttpGet ''https://gitlab.com/api/v4/projects/acme%2Fwidget'',
       LogPrintln (ErrorString ''unexpected end of JSON input'')])"
proof -
  have a: "call GitLab (GetIssueCount ''closed'') (upstream_counting 7) ''acme'' ''widget'' =
     (Return (7, None),
      [HttpGet ''https://gitlab.com/api/v4/projects/acme%2Fwidget/issues?state=closed''])"
    by (simp add: gitlab_getIssueCount_def gitlab_issues_url_def upstream_counting_def Get_def
          Itoa_def decimal.simps Atoi_def ParseUint_def is_digit_def digit_val_def)
  have u: "nonneg_upstream (upstream_counting 7)"
    by (simp add: nonneg_upstream_def nonneg_response_def upstream_counting_def Get_def
          Itoa_def decimal.simps)
  have b: "call GitLab GetStargazerCount upstream_garbled ''acme'' ''widget'' =
     (Return (- 1, Some (ErrorString ''unexpected end of JSON input'')),
      [HttpGet ''https://gitlab.com/api/v4/projects/acme%2Fwidget'',
       LogPrintln (ErrorString ''unexpected end of JSON input'')])"
    by (simp add: gitlab_getStargazerCount_def upstream_garbled_def)
  show ?thesis
    using fetcher_count_or_error [OF a] fetcher_count_or_error [OF b] a b u by simp
qed

text \<open>
  The claim as written fails at a GitLab forks fetch whose response body is no JSON: the
  fetcher returns the count \<open>- 1\<close> together with the decoder's error.
\<close>

theorem gitlab_decode_error_returns_negative_count:
  "fst (getForkCount GitLab upstream_garbled ''acme'' ''widget'') =
     Return (- 1, Some (ErrorString ''unexpected end of JSON input'')) \<and> (- 1 :: int) < 0"
  by (simp add: gitlab_getForkCount_def upstream_garbled_def)

end
